theory Spec2Isabelle
  imports Complex_Main "HOL-Library.Word"
begin

section \<open>Tensors, errors and library primitives\<close>

text \<open>
  The embedding follows \<^verbatim>\<open>src/entropix/model.py\<close>.  A JAX array is a nested list, outermost
  axis first; a \<^verbatim>\<open>float32\<close> or \<^verbatim>\<open>float16\<close> element is a real number and arithmetic on
  such elements is exact real arithmetic, so a change of floating-point width is the
  identity.  An \<^verbatim>\<open>int8\<close> element is an 8-bit word, whose arithmetic wraps modulo \<open>2 ^ 8\<close>.
  Every exception the library raises is a value of \<open>error\<close>.
\<close>

datatype error = ShapeError | ZeroSizeReduction | ZeroDivisionError | IndexError | UnboundLocalError

type_synonym vec = "real list"
type_synonym matrix = "real list list"
type_synonym tensor4 = "real list list list list"
type_synonym int8 = "8 word"

text \<open>Running a fallible function over a list stops at the first error.\<close>

fun traverse :: "('a \<Rightarrow> error + 'b) \<Rightarrow> 'a list \<Rightarrow> error + 'b list" where
  "traverse f [] = Inr []"
| "traverse f (x # xs) =
     (case f x of
        Inl e \<Rightarrow> Inl e
      | Inr y \<Rightarrow> (case traverse f xs of Inl e \<Rightarrow> Inl e | Inr ys \<Rightarrow> Inr (y # ys)))"

text \<open>
  NumPy broadcasting of two operands along one axis: equal lengths pair up, an axis of
  length 1 is repeated, anything else is the library's shape error.
\<close>

definition broadcast2 :: "'a list \<Rightarrow> 'b list \<Rightarrow> error + ('a \<times> 'b) list" where
  "broadcast2 xs ys =
     (if length xs = length ys then Inr (zip xs ys)
      else if length xs = 1 then Inr (map (\<lambda>y. (hd xs, y)) ys)
      else if length ys = 1 then Inr (map (\<lambda>x. (x, hd ys)) xs)
      else Inl ShapeError)"

text \<open>\<^verbatim>\<open>jnp.round\<close>: to the nearest integer, a tie to the even neighbour.\<close>

definition jnp_round :: "real \<Rightarrow> int" where
  "jnp_round x =
     (let f = \<lfloor>x\<rfloor>; d = x - of_int f
      in if d < 1 / 2 then f else if 1 / 2 < d then f + 1 else if even f then f else f + 1)"

text \<open>
  \<^verbatim>\<open>.astype(jnp.int8)\<close> of an integer-valued float: the conversion saturates at the ends of
  the signed 8-bit range.  \<^verbatim>\<open>.astype(jnp.float32)\<close> of an \<^verbatim>\<open>int8\<close> reads the word as a
  two's-complement number.
\<close>

definition astype_int8 :: "int \<Rightarrow> int8" where
  "astype_int8 n = word_of_int (max (- 128) (min 127 n))"

definition astype_float32 :: "int8 \<Rightarrow> real" where
  "astype_float32 w = real_of_int (sint w)"

definition astype_float16 :: "real \<Rightarrow> real" where
  "astype_float16 x = x"

text \<open>
  An elementwise binary operation on two matrices, with broadcasting on both axes
  (\<^verbatim>\<open>a * b\<close>, \<^verbatim>\<open>a + b\<close> on arrays).
\<close>

definition elementwise :: "(real \<Rightarrow> real \<Rightarrow> real) \<Rightarrow> matrix \<Rightarrow> matrix \<Rightarrow> error + matrix" where
  "elementwise f a b =
     (case broadcast2 a b of
        Inl e \<Rightarrow> Inl e
      | Inr rows \<Rightarrow>
          traverse (\<lambda>(ra, rb). case broadcast2 ra rb of
                                   Inl e \<Rightarrow> Inl e
                                 | Inr ps \<Rightarrow> Inr (map (\<lambda>(x, y). f x y) ps)) rows)"

text \<open>
  \<^verbatim>\<open>jnp.matmul\<close> on two matrices: the length of every row of \<open>a\<close> must be the number of
  rows of \<open>b\<close>.
\<close>

definition matmul :: "matrix \<Rightarrow> matrix \<Rightarrow> error + matrix" where
  "matmul a b =
     (if list_all (\<lambda>row. length row = length b) a
      then Inr (map (\<lambda>row. map (\<lambda>col. sum_list (map2 (*) row col)) (transpose b)) a)
      else Inl ShapeError)"

text \<open>
  The fields of \<^verbatim>\<open>ModelParams\<close> that \<^verbatim>\<open>model.py\<close> reads (the class itself lives in
  \<^verbatim>\<open>entropix.config\<close>).
\<close>

record ModelParams =
  n_layers :: nat
  n_local_heads :: nat
  n_local_kv_heads :: nat
  head_dim :: nat

section \<open>The quantized attention kernel \<^verbatim>\<open>sageattn\<close>\<close>

text \<open>
  \<^verbatim>\<open>sageattn(q, k, v, model_params, attn_mask, is_causal, smooth_k)\<close> works on the two
  trailing axes of its arguments, separately for every index of the two leading axes
  (batch and head): \<^verbatim>\<open>axis=-2\<close>, \<^verbatim>\<open>axis=-1\<close>, \<^verbatim>\<open>jnp.matmul\<close>, the transposition
  \<^verbatim>\<open>(0, 1, 3, 2)\<close> and \<^verbatim>\<open>jnp.tril\<close> all leave the leading axes alone.  The kernel is
  therefore written for one batch and head, \<open>sageattn_head\<close>, on matrices: \<open>q\<close> has
  \<open>q_len\<close> rows of length \<open>head_dim\<close>; \<open>k\<close>, as \<^verbatim>\<open>attention\<close> passes it, has \<open>head_dim\<close>
  rows of length \<open>kv_len\<close>; \<open>v\<close> has \<open>kv_len\<close> rows of length \<open>head_dim\<close>.  \<open>sageattn\<close>
  runs it over the leading axes.
\<close>

subsection \<open>Key smoothing (lines 36-37)\<close>

text \<open>
  \<^verbatim>\<open>jnp.mean(k, axis=-2, keepdims=True)\<close>: axis \<open>-2\<close> is the axis of the rows, so there is
  one mean per column, taken over the rows.  \<^verbatim>\<open>k - mean\<close> subtracts it from every row.
\<close>

definition mean_axis_m2 :: "matrix \<Rightarrow> vec" where
  "mean_axis_m2 k = map (\<lambda>col. sum_list col / real (length col)) (transpose k)"

definition smooth :: "matrix \<Rightarrow> matrix" where
  "smooth k = map (\<lambda>row. map2 (-) row (mean_axis_m2 k)) k"

text \<open>
  The smoothing the specification describes, for comparison: the mean of \<open>k\<close> over the
  key-length axis (the last axis of the \<open>[head_dim, kv_len]\<close> layout), one mean per
  \<open>head_dim\<close> channel, that is per row.
\<close>

definition smooth_over_kv_len :: "matrix \<Rightarrow> matrix" where
  "smooth_over_kv_len k = map (\<lambda>row. map (\<lambda>x. x - sum_list row / real (length row)) row) k"

subsection \<open>Per-row int8 quantization (lines 40-43)\<close>

text \<open>
  \<^verbatim>\<open>scale = jnp.max(jnp.abs(x), axis=-1, keepdims=True) / 127.\<close> and
  \<^verbatim>\<open>x_int8 = jnp.round(x / scale).astype(jnp.int8)\<close>, for one row of the last axis.  The
  maximum of an empty row is the library's zero-size reduction error.  A row of zeros has
  scale 0; there \<^verbatim>\<open>x / scale\<close> is \<^verbatim>\<open>0 / 0\<close>, a NaN, which the conversion to \<^verbatim>\<open>int8\<close> turns
  into 0.
\<close>

definition quantize_row :: "vec \<Rightarrow> error + (int8 list \<times> real)" where
  "quantize_row x =
     (if x = [] then Inl ZeroSizeReduction
      else let scale = Max (set (map abs x)) / 127
           in Inr (map (\<lambda>e. if scale = 0 then 0 else astype_int8 (jnp_round (e / scale))) x,
                   scale))"

text \<open>
  \<^verbatim>\<open>quantize_int8\<close> on a matrix (the two trailing axes of one batch and head): every row of
  the last axis is quantized by itself; the scales form a column, one per row.
\<close>

definition quantize_int8 :: "matrix \<Rightarrow> error + (int8 list list \<times> real list)" where
  "quantize_int8 x =
     (case traverse quantize_row x of
        Inl e \<Rightarrow> Inl e
      | Inr rs \<Rightarrow> Inr (map fst rs, map snd rs))"

subsection \<open>The integer matrix product (line 49)\<close>

text \<open>
  \<^verbatim>\<open>jnp.matmul\<close> of two \<^verbatim>\<open>int8\<close> arrays has element type \<^verbatim>\<open>int8\<close>: products and sums are
  8-bit.  \<open>exact_dot\<close> is the same sum of products over the unbounded integers, the
  reference to which the 8-bit result is compared.
\<close>

definition dot_i8 :: "int8 list \<Rightarrow> int8 list \<Rightarrow> int8" where
  "dot_i8 xs ys = sum_list (map2 (*) xs ys)"


definition matmul_i8 :: "int8 list list \<Rightarrow> int8 list list \<Rightarrow> error + int8 list list" where
  "matmul_i8 a b =
     (if list_all (\<lambda>row. length row = length b) a
      then Inr (map (\<lambda>row. map (dot_i8 row) (transpose b)) a)
      else Inl ShapeError)"

subsection \<open>Dequantized scores (lines 45-51)\<close>

text \<open>
  \<^verbatim>\<open>q_scale * jnp.transpose(k_scale, (0, 1, 3, 2))\<close>: a column of \<open>q_len\<close> scales times a
  row of as many scales as \<open>k\<close> has rows.
\<close>

definition scale_product :: "real list \<Rightarrow> real list \<Rightarrow> matrix" where
  "scale_product q_scale k_scale = map (\<lambda>qs. map (\<lambda>ks. qs * ks) k_scale) q_scale"

text \<open>Lines 36-50: the value of \<^verbatim>\<open>scores\<close> after line 50.\<close>

definition sageattn_scores :: "matrix \<Rightarrow> matrix \<Rightarrow> bool \<Rightarrow> error + matrix" where
  "sageattn_scores q k smooth_k =
     (let k = (if smooth_k then smooth k else k)
      in case quantize_int8 q of
           Inl e \<Rightarrow> Inl e
         | Inr (q_int8, q_scale) \<Rightarrow>
             (case quantize_int8 k of
                Inl e \<Rightarrow> Inl e
              | Inr (k_int8, k_scale) \<Rightarrow>
                  (case matmul_i8 q_int8 k_int8 of
                     Inl e \<Rightarrow> Inl e
                   | Inr scores \<Rightarrow>
                       elementwise (*) (map (map astype_float32) scores)
                         (scale_product q_scale k_scale))))"

text \<open>Line 51: \<^verbatim>\<open>pre_scores = scores / jnp.sqrt(model_params.head_dim)\<close>.\<close>

definition pre_scores_of :: "ModelParams \<Rightarrow> matrix \<Rightarrow> matrix" where
  "pre_scores_of model_params scores = map (map (\<lambda>s. s / sqrt (real (head_dim model_params)))) scores"

subsection \<open>Masks and softmax (lines 53-60)\<close>

text \<open>
  A score is a real number or, after the causal mask, minus infinity.  An explicit
  \<^verbatim>\<open>attn_mask\<close> is a matrix of finite numbers (such as the file's own
  \<^verbatim>\<open>DEFAULT_MASK_VALUE\<close>), added with broadcasting.
\<close>

datatype score = NegInf | Fin real

text \<open>
  \<^verbatim>\<open>mask = jnp.tril(jnp.ones_like(scores))\<close> is 1 at row \<open>i\<close>, column \<open>j\<close> when \<open>j \<le> i\<close>
  and 0 elsewhere; \<^verbatim>\<open>jnp.where(mask == 0, float('-inf'), scores)\<close>.
\<close>

definition tril_where :: "matrix \<Rightarrow> score list list" where
  "tril_where scores =
     map (\<lambda>(i, row). map (\<lambda>(j, s). if j \<le> i then Fin s else NegInf) (enumerate 0 row))
       (enumerate 0 scores)"

text \<open>Lines 53-58: the value of \<^verbatim>\<open>scores\<close> that line 60 passes to the softmax.\<close>

definition sageattn_masked :: "matrix \<Rightarrow> matrix option \<Rightarrow> bool \<Rightarrow> error + score list list" where
  "sageattn_masked scores attn_mask is_causal =
     (case (case attn_mask of None \<Rightarrow> Inr scores | Some m \<Rightarrow> elementwise (+) scores m) of
        Inl e \<Rightarrow> Inl e
      | Inr scores \<Rightarrow> Inr (if is_causal then tril_where scores else map (map Fin) scores))"

text \<open>
  \<^verbatim>\<open>jax.nn.softmax(scores, axis=-1)\<close>: the exponential of minus infinity is 0.  (A row
  that is minus infinity throughout would be a row of NaN; \<open>tril_where\<close> never masks
  column 0, so the kernel builds no such row.)
\<close>

fun exp_score :: "score \<Rightarrow> real" where
  "exp_score NegInf = 0"
| "exp_score (Fin x) = exp x"

definition softmax :: "score list \<Rightarrow> vec" where
  "softmax xs = map (\<lambda>x. exp_score x / sum_list (map exp_score xs)) xs"

subsection \<open>The kernel (lines 34-64)\<close>

definition sageattn_head ::
  "matrix \<Rightarrow> matrix \<Rightarrow> matrix \<Rightarrow> ModelParams \<Rightarrow> matrix option \<Rightarrow> bool \<Rightarrow> bool
     \<Rightarrow> error + (matrix \<times> matrix)" where
  "sageattn_head q k v model_params attn_mask is_causal smooth_k =
     (case sageattn_scores q k smooth_k of
        Inl e \<Rightarrow> Inl e
      | Inr scores \<Rightarrow>
          (let pre_scores = pre_scores_of model_params scores
           in case sageattn_masked scores attn_mask is_causal of
                Inl e \<Rightarrow> Inl e
              | Inr scores \<Rightarrow>
                  (let attn_weights = map softmax scores
                   in case matmul (map (map astype_float16) attn_weights)
                             (map (map astype_float16) v) of
                        Inl e \<Rightarrow> Inl e
                      | Inr output \<Rightarrow> Inr (output, pre_scores))))"

text \<open>
  Over the leading axes: \<open>q\<close>, \<open>k\<close> and \<open>v\<close> must agree on batch and head count, as they
  do when \<^verbatim>\<open>attention\<close> calls the kernel.
\<close>

definition zip3 :: "'a list \<Rightarrow> 'b list \<Rightarrow> 'c list \<Rightarrow> error + ('a \<times> 'b \<times> 'c) list" where
  "zip3 xs ys zs =
     (if length xs = length ys \<and> length ys = length zs then Inr (zip xs (zip ys zs))
      else Inl ShapeError)"

definition sageattn ::
  "tensor4 \<Rightarrow> tensor4 \<Rightarrow> tensor4 \<Rightarrow> ModelParams \<Rightarrow> matrix option \<Rightarrow> bool \<Rightarrow> bool
     \<Rightarrow> error + (tensor4 \<times> tensor4)" where
  "sageattn q k v model_params attn_mask is_causal smooth_k =
     (case zip3 q k v of
        Inl e \<Rightarrow> Inl e
      | Inr batches \<Rightarrow>
          (case traverse (\<lambda>(qb, kb, vb).
                   case zip3 qb kb vb of
                     Inl e \<Rightarrow> Inl e
                   | Inr heads \<Rightarrow>
                       traverse (\<lambda>(qh, kh, vh).
                         sageattn_head qh kh vh model_params attn_mask is_causal smooth_k) heads)
                 batches of
             Inl e \<Rightarrow> Inl e
           | Inr r \<Rightarrow> Inr (map (map fst) r, map (map snd) r)))"

section \<open>The rotary embedding \<^verbatim>\<open>apply_rotary_emb\<close> (lines 23-32)\<close>

text \<open>
  \<^verbatim>\<open>x.reshape(*x.shape[:-1], -1, 2)\<close> followed by \<^verbatim>\<open>jax.lax.complex(r[..., 0], r[..., 1])\<close>:
  the last axis is read as pairs (real part, imaginary part); an odd length cannot be
  reshaped.  \<open>interleave\<close> is the way back,
  \<^verbatim>\<open>jnp.stack((jnp.real(z), jnp.imag(z)), axis=-1).reshape(*z.shape[:-1], -1)\<close>.
\<close>

fun as_complex :: "vec \<Rightarrow> error + complex list" where
  "as_complex [] = Inr []"
| "as_complex [x] = Inl ShapeError"
| "as_complex (x # y # zs) =
     (case as_complex zs of Inl e \<Rightarrow> Inl e | Inr cs \<Rightarrow> Inr (Complex x y # cs))"

definition interleave :: "complex list \<Rightarrow> vec" where
  "interleave cs = concat (map (\<lambda>c. [Re c, Im c]) cs)"

text \<open>
  One argument of \<^verbatim>\<open>apply_rotary_emb\<close>, of shape \<open>[batch, seq, heads, head_dim]\<close>, times
  \<^verbatim>\<open>freqs_cis[None, :, None, :]\<close>: \<open>freqs_cis\<close> is broadcast along the sequence axis and along
  the axis of the complex pairs, and repeated over batch and heads.
\<close>

definition rotate :: "tensor4 \<Rightarrow> complex list list \<Rightarrow> error + tensor4" where
  "rotate x freqs_cis =
     traverse (\<lambda>xb.
       case broadcast2 xb freqs_cis of
         Inl e \<Rightarrow> Inl e
       | Inr positions \<Rightarrow>
           traverse (\<lambda>(xs, f).
             traverse (\<lambda>xh.
               case as_complex xh of
                 Inl e \<Rightarrow> Inl e
               | Inr x_ \<Rightarrow>
                   (case broadcast2 x_ f of
                      Inl e \<Rightarrow> Inl e
                    | Inr ps \<Rightarrow> Inr (interleave (map (\<lambda>(c, w). c * w) ps)))) xs) positions) x"

definition apply_rotary_emb ::
  "tensor4 \<Rightarrow> tensor4 \<Rightarrow> complex list list \<Rightarrow> error + (tensor4 \<times> tensor4)" where
  "apply_rotary_emb xq xk freqs_cis =
     (case rotate xq freqs_cis of
        Inl e \<Rightarrow> Inl e
      | Inr xq_out \<Rightarrow>
          (case rotate xk freqs_cis of
             Inl e \<Rightarrow> Inl e
           | Inr xk_out \<Rightarrow> Inr (xq_out, xk_out)))"

text \<open>
  A tensor of shape \<open>[b, s, h, d]\<close>, as an executable predicate, and the all-ones
  \<open>freqs_cis\<close> of shape \<open>[s, d2]\<close>.
\<close>

definition shape4 :: "nat \<Rightarrow> nat \<Rightarrow> nat \<Rightarrow> nat \<Rightarrow> tensor4 \<Rightarrow> bool" where
  "shape4 b s h d x =
     (length x = b \<and>
      list_all (\<lambda>xb. length xb = s \<and>
        list_all (\<lambda>xs. length xs = h \<and> list_all (\<lambda>xh. length xh = d) xs) xb) x)"

definition ones_cis :: "nat \<Rightarrow> nat \<Rightarrow> complex list list" where
  "ones_cis s d2 = replicate s (replicate d2 1)"

section \<open>The transformer layer and the forward pass\<close>

subsection \<open>Weights and collaborators\<close>




subsection \<open>Array helpers\<close>






subsection \<open>\<^verbatim>\<open>rms_norm\<close> (lines 18-19) and \<^verbatim>\<open>feed_forward\<close> (lines 91-92)\<close>





subsection \<open>\<^verbatim>\<open>attention\<close> (lines 67-88)\<close>




subsection \<open>\<^verbatim>\<open>xfmr\<close> (lines 95-109)\<close>







section \<open>Example inputs\<close>







text \<open>The parameters of a kernel call on one batch and one head of dimension \<open>d\<close>.\<close>

definition one_head :: "nat \<Rightarrow> ModelParams" where
  "one_head d = \<lparr>n_layers = 1, n_local_heads = 1, n_local_kv_heads = 1, head_dim = d\<rparr>"

section \<open>Properties\<close>

subsection \<open>Helper lemmas on rounding and conversion\<close>



lemma floor_minus_one: "\<lfloor>- 1 :: real\<rfloor> = - 1"
  by (simp add: floor_eq_iff)







subsection \<open>C7: the round-trip bound of the quantization\<close>



subsection \<open>C6: the integer matrix product is 8-bit\<close>



subsection \<open>Evaluating the model\<close>

lemmas kernel_defs = sageattn_def sageattn_head_def sageattn_scores_def sageattn_masked_def
  pre_scores_of_def zip3_def quantize_int8_def quantize_row_def jnp_round_def astype_int8_def
  matmul_i8_def dot_i8_def elementwise_def broadcast2_def scale_product_def astype_float32_def
  astype_float16_def smooth_def mean_axis_m2_def tril_where_def softmax_def matmul_def
  one_head_def



subsection \<open>C1: the kernel on well-formed shapes\<close>

text \<open>
  Claim C1 says that \<^verbatim>\<open>sageattn\<close> returns for every \<open>q\<close> of shape
  \<open>[batch, heads, q_len, head_dim]\<close>, \<open>k\<close> of shape \<open>[batch, heads, head_dim, kv_len]\<close> and
  \<open>v\<close> of shape \<open>[batch, heads, kv_len, head_dim]\<close>, whatever \<open>q_len\<close>, \<open>kv_len\<close> and
  \<open>head_dim\<close> are.  The code does not.  \<^verbatim>\<open>quantize_int8\<close> takes the scales of \<open>k\<close> along its
  last axis, one per \<open>head_dim\<close> channel, so \<^verbatim>\<open>q_scale * jnp.transpose(k_scale, ...)\<close> has
  shape \<open>[q_len, head_dim]\<close>, while the integer scores have shape \<open>[q_len, kv_len]\<close>.  With
  \<open>q_len = 1\<close>, \<open>head_dim = 2\<close>, \<open>kv_len = 3\<close> the product of line 50 is a shape error
  (first equation).  With \<open>kv_len = 1\<close>, \<open>head_dim = 2\<close>, the first step of a decode, the
  scores are broadcast to two columns and the product with \<open>v\<close> on line 62 is the shape
  error (second equation).  With \<open>kv_len = head_dim = 2\<close> the kernel returns (third
  equation).
\<close>

theorem sageattn_shape_error:
  "sageattn [[[[1, 2]]]] [[[[1, 2, 3], [4, 5, 6]]]] [[[[1, 2], [3, 4], [5, 6]]]]
     (one_head 2) None False True = Inl ShapeError \<and>
   sageattn [[[[1, 2]]]] [[[[1], [2]]]] [[[[1, 2]]]]
     (one_head 2) None False True = Inl ShapeError \<and>
   sageattn [[[[127, 126]]]] [[[[127, 127], [- 127, - 127]]]] [[[[1, 2], [3, 4]]]]
     (one_head 2) None False True = Inr ([[[[2, 3]]]], [[[[127 / sqrt 2, 127 / sqrt 2]]]])"
  by (simp add: kernel_defs)

subsection \<open>C2: the causal mask\<close>

text \<open>
  Claim C2 says that the causal mask hides exactly the keys whose absolute position
  exceeds that of the query, so that a decode step with one query at position \<open>cur_pos\<close>
  and \<open>cur_pos + 1\<close> keys hides no key.  The code builds the mask with \<^verbatim>\<open>jnp.tril\<close> on the
  \<open>[q_len, kv_len]\<close> score matrix with no offset: row \<open>i\<close> keeps the columns \<open>j \<le> i\<close>, where
  \<open>i\<close> counts the queries of the step from 0.  For one query and three keys
  (\<open>cur_pos = 2\<close>) the scores \<open>[0, 127, -127]\<close> become \<open>[0, -inf, -inf]\<close>: the keys at
  positions 1 and 2 are hidden, and the output is the value at position 0 alone.  (In
  this input the columns of \<open>k\<close> have mean 0, so the smoothing changes nothing, all scales
  are 1, and every integer dot product, \<open>0\<close>, \<open>127\<close> and \<open>-127\<close>, fits in 8 bits.)
\<close>

theorem causal_decode_masks_cache:
  "sageattn_scores [[127, 127, 126]] [[127, 0, - 127], [- 127, 127, 0], [0, - 127, 127]] True
     = Inr [[0, 127, - 127]] \<and>
   sageattn_masked [[0, 127, - 127]] None True = Inr [[Fin 0, NegInf, NegInf]] \<and>
   sageattn [[[[127, 127, 126]]]] [[[[127, 0, - 127], [- 127, 127, 0], [0, - 127, 127]]]]
     [[[[1, 2, 3], [4, 5, 6], [7, 8, 9]]]] (one_head 3) None True True
     = Inr ([[[[1, 2, 3]]]], [[[[0, 127 / sqrt 3, - (127 / sqrt 3)]]]])"
  by (simp add: kernel_defs)

subsection \<open>C3: what the softmax is applied to\<close>

text \<open>
  Claim C3 says that the masks and the softmax are applied to the scores divided by
  \<open>sqrt head_dim\<close>, the tensor returned as \<^verbatim>\<open>pre_scores\<close>.  In the code line 51 binds the
  quotient to \<^verbatim>\<open>pre_scores\<close> only; lines 53-60 go on with \<^verbatim>\<open>scores\<close>, which is not divided.
  For \<open>head_dim = 4\<close> and the scores \<open>[0, 0, 127, -127]\<close>, \<^verbatim>\<open>pre_scores\<close> is
  \<open>[0, 0, 127/2, -127/2]\<close> but the softmax input is \<open>[0, 0, 127, -127]\<close>, and the attention
  weights (the output, \<open>v\<close> being the identity matrix) are the softmax of
  \<open>[0, 0, 127, -127]\<close>.  (The smoothing changes nothing here, all scales are 1 and every
  integer dot product fits in 8 bits.)
\<close>

theorem softmax_on_unscaled_scores:
  "sageattn_scores [[127, 127, 127, 126]]
     [[127, 0, 0, - 127], [- 127, 127, 0, 0], [0, - 127, 127, 0], [0, 0, - 127, 127]] True
     = Inr [[0, 0, 127, - 127]] \<and>
   pre_scores_of (one_head 4) [[0, 0, 127, - 127]] = [[0, 0, 127 / 2, - (127 / 2)]] \<and>
   sageattn_masked [[0, 0, 127, - 127]] None False
     = Inr [[Fin 0, Fin 0, Fin 127, Fin (- 127)]] \<and>
   sageattn [[[[127, 127, 127, 126]]]]
     [[[[127, 0, 0, - 127], [- 127, 127, 0, 0], [0, - 127, 127, 0], [0, 0, - 127, 127]]]]
     [[[[1, 0, 0, 0], [0, 1, 0, 0], [0, 0, 1, 0], [0, 0, 0, 1]]]] (one_head 4) None False True
     = Inr ([[[[1 / (2 + (exp 127 + exp (- 127))), 1 / (2 + (exp 127 + exp (- 127))),
                exp 127 / (2 + (exp 127 + exp (- 127))),
                exp (- 127) / (2 + (exp 127 + exp (- 127)))]]]],
            [[[[0, 0, 127 / 2, - (127 / 2)]]]])"
  by (simp add: kernel_defs)

subsection \<open>C4: the axis of the key smoothing\<close>

text \<open>
  Claim C4 says that the smoothing subtracts from \<open>k\<close>, laid out as
  \<open>[batch, heads, head_dim, kv_len]\<close>, its mean over the key-length axis, one mean per
  \<open>head_dim\<close> channel.  The code takes \<^verbatim>\<open>jnp.mean(k, axis=-2)\<close>, and axis \<open>-2\<close> of that layout
  is the \<open>head_dim\<close> axis: one mean per key position, over the channels.  For two channels
  \<open>[1, 3]\<close> and \<open>[5, 7]\<close> of two keys the code subtracts the means \<open>3\<close> and \<open>5\<close> of the two
  keys; the claim's smoothing subtracts the means \<open>2\<close> and \<open>6\<close> of the two channels.
\<close>

theorem smoothing_axis:
  "smooth [[1, 3], [5, 7]] = [[- 2, - 2], [2, 2]] \<and>
   smooth_over_kv_len [[1, 3], [5, 7]] = [[- 1, 1], [- 1, 1]]"
  by (simp add: smooth_def mean_axis_m2_def smooth_over_kv_len_def)

subsection \<open>C5: later keys and the output under the causal mask\<close>

lemma exp_ratio_ne_half: "x \<noteq> y \<Longrightarrow> exp x / (exp x + exp y) \<noteq> (1 / 2 :: real)"
proof
  assume ne: "x \<noteq> y" and eq: "exp x / (exp x + exp y) = (1 / 2 :: real)"
  have pos: "exp x + exp y > 0" by (simp add: add_pos_pos)
  from eq pos have "2 * exp x = exp x + exp y" by (simp add: field_simps)
  then have "exp x = exp y" by simp
  then show False using ne by simp
qed

text \<open>
  Claim C5 says that with \<^verbatim>\<open>is_causal = True\<close> the output at query position \<open>p\<close> does not
  change when the keys and values at positions after \<open>p\<close> change.  In the code the scale
  of every \<open>head_dim\<close> channel of \<open>k\<close> is the largest absolute value over all key
  positions, so a later key changes the scales (and in general the quantized values)
  that enter the scores of the earlier ones.  Two calls with the same \<open>q\<close> (two queries)
  and \<open>v\<close>, whose \<open>k\<close> (three channels in rows, three key positions in columns) differ in
  the column of key 2 only: the scores of query 1 for the keys 0 and 1 are \<open>-3, -3\<close> in the
  first call and \<open>-3, -2\<close> in the second, and the output at query 1, which the mask lets
  see keys 0 and 1 only, is \<open>[1/2, 1/2, 0]\<close> in the first call and not in the second.  (The
  columns of both \<open>k\<close> have mean 0, so the smoothing changes nothing, and every integer dot
  product, \<open>-127\<close> or \<open>0\<close>, fits in 8 bits.)
\<close>

theorem causal_output_depends_on_later_key:
  "sageattn [[[[1, 1, 0], [1, 1, 0]]]]
     [[[[0, 0, 381], [- 2, - 2, - 381], [2, 2, 0]]]]
     [[[[1, 0, 0], [0, 1, 0], [0, 0, 1]]]] (one_head 3) None True True
     = Inr ([[[[1, 0, 0], [1 / 2, 1 / 2, 0]]]],
            [[[[- (3 / sqrt 3), - (3 / sqrt 3), 0], [- (3 / sqrt 3), - (3 / sqrt 3), 0]]]]) \<and>
   sageattn [[[[1, 1, 0], [1, 1, 0]]]]
     [[[[0, 0, 381], [- 2, - 2, - 254], [2, 2, - 127]]]]
     [[[[1, 0, 0], [0, 1, 0], [0, 0, 1]]]] (one_head 3) None True True
     = Inr ([[[[1, 0, 0],
               [exp (- 3) / (exp (- 3) + exp (- 2)), exp (- 2) / (exp (- 3) + exp (- 2)), 0]]]],
            [[[[- (3 / sqrt 3), - (2 / sqrt 3), 0], [- (3 / sqrt 3), - (2 / sqrt 3), 0]]]]) \<and>
   exp (- 3) / (exp (- 3) + exp (- 2)) \<noteq> (1 / 2 :: real)"
proof -
  have "exp (- 3) / (exp (- 3) + exp (- 2)) \<noteq> (1 / 2 :: real)"
    by (rule exp_ratio_ne_half) simp
  then show ?thesis by (simp add: kernel_defs floor_minus_one)
qed

subsection \<open>C8: the rotary embedding with all-ones \<open>freqs_cis\<close>\<close>

lemma traverse_id: "(\<And>x. x \<in> set xs \<Longrightarrow> f x = Inr x) \<Longrightarrow> traverse f xs = Inr xs"
  by (induction xs) simp_all

lemma traverse_map: "traverse f (map g xs) = traverse (\<lambda>x. f (g x)) xs"
  by (induction xs) (simp_all split: sum.splits)

lemma zip_replicate_right: "length xs = n \<Longrightarrow> zip xs (replicate n c) = map (\<lambda>x. (x, c)) xs"
  by (induction xs arbitrary: n) auto

lemma as_complex_even:
  "length xh = 2 * n \<Longrightarrow> \<exists>cs. as_complex xh = Inr cs \<and> length cs = n \<and> interleave cs = xh"
proof (induction xh arbitrary: n rule: as_complex.induct)
  case 1
  then show ?case by (simp add: interleave_def)
next
  case (2 x)
  then show ?case by simp
next
  case (3 x y zs)
  then obtain m where n: "n = Suc m" by (cases n) auto
  with 3(2) have "length zs = 2 * m" by simp
  from 3(1)[OF this] obtain cs where "as_complex zs = Inr cs" "length cs = m" "interleave cs = zs"
    by blast
  then show ?case using n by (simp add: interleave_def)
qed

lemma times_one_zip:
  "length cs = n \<Longrightarrow> map (\<lambda>(c, w). c * w) (zip cs (replicate n (1::complex))) = cs"
  by (simp add: zip_replicate_right map_idI)

lemma rotate_head_ones:
  assumes "length xh = 2 * d2"
  shows "(case as_complex xh of
            Inl e \<Rightarrow> Inl e
          | Inr x_ \<Rightarrow>
              (case broadcast2 x_ (replicate d2 (1::complex)) of
                 Inl e \<Rightarrow> Inl e
               | Inr ps \<Rightarrow> Inr (interleave (map (\<lambda>(c, w). c * w) ps)))) = Inr xh"
proof -
  from as_complex_even[OF assms] obtain cs where
    cs: "as_complex xh = Inr cs" "length cs = d2" "interleave cs = xh" by blast
  then show ?thesis by (simp add: broadcast2_def times_one_zip)
qed

lemma rotate_ones:
  assumes "shape4 b s h (2 * d2) x"
  shows "rotate x (ones_cis s d2) = Inr x"
  unfolding rotate_def
proof (rule traverse_id)
  fix xb assume xb: "xb \<in> set x"
  then have len: "length xb = s"
    and inner: "\<And>xs xh. xs \<in> set xb \<Longrightarrow> xh \<in> set xs \<Longrightarrow> length xh = 2 * d2"
    using assms by (auto simp: shape4_def list_all_iff)
  have bc: "broadcast2 xb (ones_cis s d2) = Inr (map (\<lambda>xs. (xs, replicate d2 1)) xb)"
    using len by (simp add: broadcast2_def ones_cis_def zip_replicate_right)
  have "traverse (\<lambda>xs. traverse (\<lambda>xh.
               case as_complex xh of
                 Inl e \<Rightarrow> Inl e
               | Inr x_ \<Rightarrow>
                   (case broadcast2 x_ (replicate d2 (1::complex)) of
                      Inl e \<Rightarrow> Inl e
                    | Inr ps \<Rightarrow> Inr (interleave (map (\<lambda>(c, w). c * w) ps)))) xs) xb = Inr xb"
    by (intro traverse_id rotate_head_ones inner)
  then show "(case broadcast2 xb (ones_cis s d2) of
         Inl e \<Rightarrow> Inl e
       | Inr positions \<Rightarrow>
           traverse (\<lambda>(xs, f).
             traverse (\<lambda>xh.
               case as_complex xh of
                 Inl e \<Rightarrow> Inl e
               | Inr x_ \<Rightarrow>
                   (case broadcast2 x_ f of
                      Inl e \<Rightarrow> Inl e
                    | Inr ps \<Rightarrow> Inr (interleave (map (\<lambda>(c, w). c * w) ps)))) xs) positions) = Inr xb"
    by (simp add: bc traverse_map)
qed

text \<open>
  Claim C8.  For \<open>xq\<close> of shape \<open>[bq, s, hq, 2 * d2]\<close> and \<open>xk\<close> of shape \<open>[bk, s, hk, 2 * d2]\<close>
  (the trailing axis of even length) and the all-ones \<open>freqs_cis\<close> of shape \<open>[s, d2]\<close>,
  \<^verbatim>\<open>apply_rotary_emb\<close> returns \<open>xq\<close> and \<open>xk\<close> themselves.
\<close>

theorem rotary_ones_identity:
  assumes "shape4 bq s hq (2 * d2) xq" and "shape4 bk s hk (2 * d2) xk"
  shows "apply_rotary_emb xq xk (ones_cis s d2) = Inr (xq, xk)"
  using assms by (simp add: apply_rotary_emb_def rotate_ones)

theorem rotary_ones_identity_witness:
  "shape4 1 2 1 (2 * 1) [[[[1, 2]], [[3, 4]]]] \<and>
   shape4 1 2 2 (2 * 1) [[[[5, 6], [7, 8]], [[9, 10], [11, 12]]]] \<and>
   apply_rotary_emb [[[[1, 2]], [[3, 4]]]] [[[[5, 6], [7, 8]], [[9, 10], [11, 12]]]] (ones_cis 2 1)
     = Inr ([[[[1, 2]], [[3, 4]]]], [[[[5, 6], [7, 8]], [[9, 10], [11, 12]]]])"
proof -
  have q: "shape4 1 2 1 (2 * 1) [[[[1, 2]], [[3, 4]]]]" by (simp add: shape4_def)
  have k: "shape4 1 2 2 (2 * 1) [[[[5, 6], [7, 8]], [[9, 10], [11, 12]]]]" by (simp add: shape4_def)
  show ?thesis using q k rotary_ones_identity [OF q k] by simp
qed

subsection \<open>C9: the causal flag of the layer\<close>

text \<open>
  What the flag does in the kernel: without it no score becomes minus infinity; with it
  (and no explicit mask) the score at row \<open>i\<close>, column \<open>j\<close> becomes minus infinity exactly
  when \<open>i < j\<close>.
\<close>

lemma not_causal_no_NegInf:
  assumes "sageattn_masked scores m False = Inr r"
  shows "list_all (list_all (\<lambda>e. e \<noteq> NegInf)) r"
  using assms
  by (auto simp: sageattn_masked_def list_all_iff split: sum.splits option.splits)

lemma causal_NegInf_iff:
  assumes "i < length scores" "j < length (scores ! i)"
  shows "sageattn_masked scores None True = Inr (tril_where scores) \<and>
         (tril_where scores ! i ! j = NegInf \<longleftrightarrow> i < j)"
  using assms by (auto simp: sageattn_masked_def tril_where_def nth_enumerate_eq)



subsection \<open>C10: the forward pass runs every layer\<close>







end
